theory Spec2Isabelle
  imports Complex_Main "HOL-Library.Word"
begin

unbundle bit_operations_syntax

text \<open>
  A model of the per-call pipeline of the telephony bridge (\<open>main.go\<close>, with the settings
  structs of \<open>chat.go\<close>): the PCM conversion, the utterance processor
  \<open>handleInputAudio\<close>, the read loop of \<open>Handle\<close> with its voice-activity segmentation,
  and the playback relay \<open>websocketSendReceive\<close>. Definitions come first, section by
  section as in the source; the properties follow.
\<close>

section \<open>Frame codec: 16-bit little-endian PCM to normalised samples\<close>

text \<open>
  Go's \<open>[]byte\<close> is a list of 8-bit words and \<open>int16\<close> a 16-bit word read with
  \<open>sint\<close>. An \<open>error\<close> value carries the text given to \<open>fmt.Errorf\<close>.

  The samples produced by \<open>pcmToFloat32Array\<close> are \<open>float32(sample) / 32768.0\<close> for an
  \<open>int16\<close> sample. Every \<open>int16\<close> is a \<open>float32\<close> (24 bits of significand), and dividing
  by \<open>2 ^ 15\<close> only changes the exponent, so the binary32 result is the exact quotient:
  the type \<open>float32\<close> below holds that exact value as a rational number.
\<close>

type_synonym byte = "8 word"
type_synonym int16 = "16 word"
type_synonym float32 = rat
type_synonym float64 = rat

datatype error = Error string

text \<open>
  \<open>binary.Read(buf, binary.LittleEndian, &sample)\<close> on a \<open>bytes.Reader\<close>: the reader is
  the list of bytes not yet consumed; two bytes are taken, the first is the low byte.
  With fewer than two bytes left the read fails (\<open>io.EOF\<close> on none,
  \<open>io.ErrUnexpectedEOF\<close> on one).
\<close>

fun binary_Read_int16 :: "byte list \<Rightarrow> error + (int16 \<times> byte list)" where
  "binary_Read_int16 (b0 # b1 # rest) = Inr (ucast b0 OR push_bit 8 (ucast b1), rest)"
| "binary_Read_int16 [b0] = Inl (Error ''unexpected EOF'')"
| "binary_Read_int16 [] = Inl (Error ''EOF'')"

definition float32_of_int16 :: "int16 \<Rightarrow> float32" where
  "float32_of_int16 sample = of_int (sint sample)"

text \<open>
  The loop \<open>for i := 0; i < len(float32Array); i++\<close> of \<open>pcmToFloat32Array\<close>, with the
  index, the array written so far and the reader as its state.
\<close>

function pcm_loop :: "nat \<Rightarrow> float32 list \<Rightarrow> byte list \<Rightarrow> error + float32 list" where
  "pcm_loop i float32Array buf =
     (if i < length float32Array then
        (case binary_Read_int16 buf of
           Inl (Error e) \<Rightarrow> Inl (Error (''failed to read sample: '' @ e))
         | Inr (sample, buf') \<Rightarrow>
             pcm_loop (Suc i) (float32Array[i := float32_of_int16 sample / 32768]) buf')
      else Inr float32Array)"
  by pat_completeness auto
termination
  by (relation "measure (\<lambda>(i, float32Array, buf). length float32Array - i)") auto

declare pcm_loop.simps [simp del]

definition pcmToFloat32Array :: "byte list \<Rightarrow> error + float32 list" where
  "pcmToFloat32Array pcmData =
     (if length pcmData mod 2 \<noteq> 0 then Inl (Error ''pcm data length must be even'')
      else pcm_loop 0 (replicate (length pcmData div 2) 0) pcmData)"

text \<open>
  The specification's reading of the \<open>i\<close>-th sample: the signed 16-bit value whose low
  byte is at offset \<open>2 * i\<close> and whose high byte is at offset \<open>2 * i + 1\<close>, by arithmetic.
\<close>

definition sample_le :: "byte list \<Rightarrow> nat \<Rightarrow> int" where
  "sample_le pcmData i =
     (let u = uint (pcmData ! (2 * i)) + 256 * uint (pcmData ! (2 * i + 1))
      in if u < 32768 then u else u - 65536)"

text \<open>The first \<open>n\<close> samples of a byte sequence, as the specification normalises them.\<close>

definition samples_of :: "byte list \<Rightarrow> nat \<Rightarrow> float32 list" where
  "samples_of buf n = map (\<lambda>j. of_int (sample_le buf j) / 32768) [0..<n]"

section \<open>Settings and external services\<close>

text \<open>
  The settings structs of \<open>chat.go\<close>. A pointer field (\<open>*int\<close>, \<open>*float64\<close>,
  \<open>*string\<close>) is an option: \<open>None\<close> is the nil pointer. The repository never writes
  through these pointers, it only copies them, so the value pointed to stands for the
  pointer. Two fields named \<open>Temperature\<close> exist in the source; the one of
  \<open>STTSettings\<close> carries a suffix here.
\<close>

record STTSettings =
  Language :: string
  BeamSize :: "int option"
  BestOf :: "int option"
  Patience :: "float64 option"
  NoSpeechThreshold :: "int option"
  Temperature_stt :: "float64 option"
  HallucinationSilenceThreshold :: "int option"

record LLMSettings =
  Model :: string
  Seed :: "int option"
  SystemPrompt :: "string option"
  Mirostat :: "int option"
  MirostatEta :: "float64 option"
  MirostatTau :: "float64 option"
  NumCtx :: "int option"
  RepeatLastN :: "int option"
  RepeatPenalty :: "float64 option"
  Temperature :: "float64 option"
  TfsZ :: "float64 option"
  NumPredict :: "int option"
  TopK :: "int option"
  TopP :: "float64 option"
  MinP :: "float64 option"

text \<open>The fields of \<open>ollama.Options\<close> that \<open>handleInputAudio\<close> fills in.\<close>

record Options =
  Seed_opt :: "int option"
  Mirostat_opt :: "int option"
  MirostatEta_opt :: "float64 option"
  MirostatTau_opt :: "float64 option"
  NumCtx_opt :: "int option"
  RepeatLastN_opt :: "int option"
  RepeatPenalty_opt :: "float64 option"
  TfsZ_opt :: "float64 option"
  Temperature_opt :: "float64 option"
  NumPredict_opt :: "int option"

text \<open>The JSON object handed to \<open>websocketSendReceive\<close>.\<close>

record relay_data =
  message :: string
  language :: string
  speed :: rat
  await_time :: rat

text \<open>
  What a session does to the outside world, in program order. \<open>Log\<close> keeps the constant
  first argument of the \<open>log.Println\<close> call. \<open>Vad_Process\<close> is the call of the stateful
  detector, \<open>Call_handleInputAudio\<close> the hand-over of the utterance buffer, the others the
  calls of \<open>sendFloat32ArrayToServer\<close> (the transcription request), \<open>API.SendMessage\<close>,
  \<open>LLM.Chat\<close> and \<open>websocketSendReceive\<close> (the start of a playback relay), each with
  its arguments. The HTTP exchanges behind these calls are not part of the model.
\<close>

datatype effect =
    Log string
  | Vad_Process int "byte list"
  | Call_handleInputAudio "float32 list list"
  | SendFloat32ArrayToServer string "float32 list" STTSettings
  | API_SendMessage string string string
  | LLM_Chat string string string Options
  | WebsocketSendReceive string relay_data

text \<open>
  The answers of the external services to one utterance; each is read only if the code
  reaches the call. \<open>None\<close> is a nil error.
\<close>

record replies =
  transcribe_reply :: "error + string"
  user_message_reply :: "error option"
  chat_reply :: "error + string"
  assistant_message_reply :: "error option"

section \<open>Utterance processor\<close>

definition websocketURI :: string where
  "websocketURI = ''ws://localhost:8011/ws''"

text \<open>
  \<open>calculateAudioLength\<close>: the loop adds the chunk lengths, the quotient is taken in
  \<open>float64\<close>. The quotient is kept exact here. The only use of the result is the test
  \<open>length < 0.40\<close> with \<open>sampleRate = 16000\<close>, and the test has the same outcome on
  the exact quotient as on the rounded one: rounding to the nearest \<open>float64\<close> is
  monotone, it maps the exact quotient \<open>6400 / 16000\<close> to the constant \<open>0.40\<close> itself,
  and the next smaller quotient \<open>6399 / 16000\<close> lies far more than one unit in the last
  place below it.
\<close>

definition calculateAudioLength :: "float32 list list \<Rightarrow> int \<Rightarrow> float64" where
  "calculateAudioLength inputAudioBuffer sampleRate =
     (let totalSamples = foldl (\<lambda>total buffer. total + int (length buffer)) 0 inputAudioBuffer
      in of_int totalSamples / of_int sampleRate)"

definition excludedWords :: "string list" where
  "excludedWords =
  [[CHR 0xD0, CHR 0x9F, CHR 0xD1, CHR 0x80, CHR 0xD0, CHR 0xBE, CHR 0xD0, CHR 0xB4, CHR 0xD0,
    CHR 0xBE, CHR 0xD0, CHR 0xBB, CHR 0xD0, CHR 0xB6, CHR 0xD0, CHR 0xB5, CHR 0xD0, CHR 0xBD,
    CHR 0xD0, CHR 0xB8, CHR 0xD0, CHR 0xB5, CHR 0x20, CHR 0xD1, CHR 0x81, CHR 0xD0, CHR 0xBB,
    CHR 0xD0, CHR 0xB5, CHR 0xD0, CHR 0xB4, CHR 0xD1, CHR 0x83, CHR 0xD0, CHR 0xB5, CHR 0xD1,
    CHR 0x82, CHR 0x2E, CHR 0x2E, CHR 0x2E],
   [CHR 0xD0, CHR 0xA1, CHR 0xD1, CHR 0x83, CHR 0xD0, CHR 0xB1, CHR 0xD1, CHR 0x82, CHR 0xD0,
    CHR 0xB8, CHR 0xD1, CHR 0x82, CHR 0xD1, CHR 0x80, CHR 0xD1, CHR 0x8B, CHR 0x20, CHR 0xD1,
    CHR 0x81, CHR 0xD0, CHR 0xB4, CHR 0xD0, CHR 0xB5, CHR 0xD0, CHR 0xBB, CHR 0xD0, CHR 0xB0,
    CHR 0xD0, CHR 0xBB, CHR 0x20, CHR 0x44, CHR 0x69, CHR 0x6D, CHR 0x61, CHR 0x54, CHR 0x6F,
    CHR 0x72, CHR 0x7A, CHR 0x6F, CHR 0x6B],
   [CHR 0xD0, CHR 0xA1, CHR 0xD1, CHR 0x83, CHR 0xD0, CHR 0xB1, CHR 0xD1, CHR 0x82, CHR 0xD0,
    CHR 0xB8, CHR 0xD1, CHR 0x82, CHR 0xD1, CHR 0x80, CHR 0xD1, CHR 0x8B, CHR 0x20, CHR 0xD1,
    CHR 0x81, CHR 0xD0, CHR 0xBE, CHR 0xD0, CHR 0xB7, CHR 0xD0, CHR 0xB4, CHR 0xD0, CHR 0xB0,
    CHR 0xD0, CHR 0xB2, CHR 0xD0, CHR 0xB0, CHR 0xD0, CHR 0xBB, CHR 0x20, CHR 0x44, CHR 0x69,
    CHR 0x6D, CHR 0x61, CHR 0x54, CHR 0x6F, CHR 0x72, CHR 0x7A, CHR 0x6F, CHR 0x6B]]"

text \<open>
  The loop \<open>for _, word := range excludedWords\<close>: does it return early? Go compares
  strings byte by byte, as list equality does here.
\<close>

fun excluded :: "string \<Rightarrow> string list \<Rightarrow> bool" where
  "excluded transcription [] = False"
| "excluded transcription (word # rest) =
     (if transcription = word then True else excluded transcription rest)"

definition llm_option_logs :: "effect list" where
  "llm_option_logs =
     [Log ''LLM Option - Seed:'', Log ''LLM Option - Mirostat:'',
      Log ''LLM Option - MirostatEta:'', Log ''LLM Option - MirostatTau:'',
      Log ''LLM Option - NumCtx:'', Log ''LLM Option - RepeatLastN:'',
      Log ''LLM Option - RepeatPenalty:'', Log ''LLM Option - TfsZ:'',
      Log ''LLM Option - NumPredict:'', Log ''LLM Option - Temperature:'',
      Log ''LLM Options:'']"

text \<open>
  The part of \<open>handleInputAudio\<close> after a transcript has come back (lines 214 to 282):
  the options struct built from the settings, then the denylist, the chat log, the model and
  the relay.
\<close>

definition llmOptions_of :: "LLMSettings \<Rightarrow> Options" where
  "llmOptions_of llmSettings =
     \<lparr>Seed_opt = Seed llmSettings, Mirostat_opt = Mirostat llmSettings,
      MirostatEta_opt = MirostatEta llmSettings, MirostatTau_opt = MirostatTau llmSettings,
      NumCtx_opt = NumCtx llmSettings, RepeatLastN_opt = RepeatLastN llmSettings,
      RepeatPenalty_opt = RepeatPenalty llmSettings, TfsZ_opt = TfsZ llmSettings,
      Temperature_opt = Temperature llmSettings, NumPredict_opt = NumPredict llmSettings\<rparr>"

definition after_transcription ::
  "string \<Rightarrow> LLMSettings \<Rightarrow> replies \<Rightarrow> string \<Rightarrow> effect list" where
  "after_transcription chatID llmSettings env transcription =
     (let llmOptions = llmOptions_of llmSettings
      in llm_option_logs @
        (if excluded transcription excludedWords
         then [Log ''Transcription contains excluded word, stopping further processing.'']
         else API_SendMessage chatID ''user'' transcription #
           (case user_message_reply env of
              Some err \<Rightarrow> [Log ''Error sending user message:'']
            | None \<Rightarrow>
                Log ''Sent user message:'' #
                LLM_Chat chatID ''gemma2:9b'' transcription llmOptions #
                (case chat_reply env of
                   Inl err \<Rightarrow> [Log ''Error generating Ollama chat:'']
                 | Inr content \<Rightarrow>
                     Log ''Received result:'' #
                     API_SendMessage chatID ''assistant'' content #
                     (case assistant_message_reply env of
                        Some err \<Rightarrow> [Log ''Error sending assistant message:'']
                      | None \<Rightarrow>
                          [Log ''Using transcription:'',
                           WebsocketSendReceive websocketURI
                             \<lparr>message = content, language = ''ru'', speed = 1.0,
                              await_time = 0.015\<rparr>])))))"

text \<open>
  \<open>handleInputAudio\<close>. Its parameters \<open>sttSettings\<close> and \<open>llmSettings\<close> are structs passed
  by value: the assignment \<open>sttSettings.Language = "ru"\<close> changes the callee's copy. The
  function returns nothing, so its meaning is the list of its effects.
\<close>

definition handleInputAudio ::
  "string \<Rightarrow> float32 list list \<Rightarrow> STTSettings \<Rightarrow> LLMSettings \<Rightarrow> replies \<Rightarrow> effect list" where
  "handleInputAudio chatID buffer sttSettings llmSettings env =
     (let mergedBuffer = foldl (\<lambda>merged data. merged @ data) [] buffer;
          length = calculateAudioLength buffer 16000
      in if length < 0.40
         then [Log ''Audio length:'',
               Log ''Audio length is less than 0.45 seconds, skipping processing.'']
         else
           (let sttSettings = sttSettings\<lparr>Language := ''ru''\<rparr>
            in Log ''Audio length:'' #
               SendFloat32ArrayToServer ''http://localhost:8002/complete_transcribe_r''
                 mergedBuffer sttSettings #
               (case transcribe_reply env of
                  Inl err \<Rightarrow> [Log ''Error sending data to server:'']
                | Inr transcription \<Rightarrow>
                    after_transcription chatID llmSettings env transcription)))"

section \<open>Call session: the read loop of \<open>Handle\<close>\<close>

text \<open>
  \<open>audiosocket.Message\<close> is seen through its three accessors only. \<open>KindOther\<close> stands for
  every kind byte the \<open>switch\<close> has no case for.
\<close>

datatype kind = KindHangup | KindID | KindSlin | KindError | KindOther

record audiosocket_Message =
  Kind :: kind
  ContentLength :: nat
  Payload :: "byte list"

datatype next_error = Err_nil | Err_EOF | Err_other

text \<open>
  One iteration of the loop reads one message; the detector's verdict on its payload and the
  services' answers are part of the input, each used only where the code asks for it.
\<close>

record input =
  NextMessage_m :: audiosocket_Message
  NextMessage_err :: next_error
  vad_reply :: "error + bool"
  services :: replies

text \<open>
  The variables of \<open>Handle\<close> that live across iterations. \<open>sttSettings\<close> and
  \<open>llmSettings\<close> are the structs the two pointers fetched at session start refer to.
  \<open>silenceCount\<close> is a Go \<open>int\<close>; it is reset by every speech frame and the claims below
  count to six, so it is an unbounded integer here.
\<close>

record session =
  ChatID :: string
  sttSettings :: STTSettings
  llmSettings :: LLMSettings
  inputAudioBuffer :: "float32 list list"
  silenceCount :: int

definition rate :: int where
  "rate = 16000"

definition silenceThreshold :: int where
  "silenceThreshold = 5"

text \<open>The state in which the loop is entered (lines 143 to 146).\<close>

definition session_start :: "string \<Rightarrow> STTSettings \<Rightarrow> LLMSettings \<Rightarrow> session" where
  "session_start chatID stt llm =
     \<lparr>ChatID = chatID, sttSettings = stt, llmSettings = llm, inputAudioBuffer = [],
      silenceCount = 0\<rparr>"

text \<open>
  The body of the loop. The result is the effects of the iteration and the next state;
  \<open>None\<close> is a \<open>return\<close> from \<open>Handle\<close>, which ends the session.
\<close>

definition Handle_body :: "session \<Rightarrow> input \<Rightarrow> effect list \<times> session option" where
  "Handle_body s i =
     (let m = NextMessage_m i in
      if NextMessage_err i = Err_EOF then ([Log ''audiosocket closed''], None)
      else case Kind m of
        KindHangup \<Rightarrow> ([Log ''audiosocket received hangup command''], None)
      | KindError \<Rightarrow> ([Log ''error from audiosocket''], Some s)
      | KindSlin \<Rightarrow>
          if ContentLength m < 1 then ([Log ''no audio data''], Some s)
          else
            (let audioData = Payload m in
             case pcmToFloat32Array audioData of
               Inl err \<Rightarrow> ([Log ''error converting pcm to float32:''], Some s)
             | Inr floatArray \<Rightarrow>
                 (case vad_reply i of
                    Inl err \<Rightarrow>
                      ([Vad_Process rate audioData, Log ''Error processing VAD:''], Some s)
                  | Inr active \<Rightarrow>
                      if active then
                        ([Vad_Process rate audioData],
                         Some (s\<lparr>inputAudioBuffer := inputAudioBuffer s @ [floatArray],
                                 silenceCount := 0\<rparr>))
                      else
                        (let s1 = s\<lparr>silenceCount := silenceCount s + 1\<rparr> in
                         if silenceCount s1 > silenceThreshold \<and>
                            length (inputAudioBuffer s1) > 0
                         then
                           ([Vad_Process rate audioData, Log ''Processing complete sentence'',
                             Call_handleInputAudio (inputAudioBuffer s1)] @
                            handleInputAudio (ChatID s1) (inputAudioBuffer s1)
                              (sttSettings s1) (llmSettings s1) (services i),
                            Some (s1\<lparr>inputAudioBuffer := []\<rparr>))
                         else ([Vad_Process rate audioData], Some s1))))
      | _ \<Rightarrow> ([], Some s))"

text \<open>
  The loop over the messages that arrive. \<open>ctx\<close> derives from \<open>context.Background()\<close> and
  is cancelled only by the deferred \<open>cancel\<close>, so the loop condition holds at every
  iteration. \<open>Some s\<close> after the last input is the session waiting in \<open>NextMessage\<close>.
\<close>

fun Handle_loop :: "session \<Rightarrow> input list \<Rightarrow> effect list \<times> session option" where
  "Handle_loop s [] = ([], Some s)"
| "Handle_loop s (i # rest) =
     (case Handle_body s i of
        (out, None) \<Rightarrow> (out, None)
      | (out, Some s') \<Rightarrow>
          (case Handle_loop s' rest of (out', r) \<Rightarrow> (out @ out', r)))"

text \<open>The utterance buffers handed to \<open>handleInputAudio\<close>, in order.\<close>

fun dispatched :: "effect list \<Rightarrow> float32 list list list" where
  "dispatched [] = []"
| "dispatched (Call_handleInputAudio buffer # rest) = buffer # dispatched rest"
| "dispatched (_ # rest) = dispatched rest"

section \<open>Playback relay: \<open>websocketSendReceive\<close> and its goroutine\<close>

text \<open>
  The relay runs concurrently with the read loops, so it is modelled as an interleaving of
  atomic steps on one shared state. A context made by \<open>context.WithCancel\<close> is a number,
  its \<open>cancel\<close> function is identified with it, and \<open>cancelled\<close> holds the contexts whose
  \<open>Done\<close> channel is closed. \<open>wsCancel\<close> is the package-level variable of that name;
  \<open>None\<close> is nil. A \<open>net.Conn\<close> of a call is a number too. \<open>wire\<close> lists the audio frames
  written with \<open>conn.Write\<close> in the order of the writes, each with its connection, the
  context of the relay that wrote it and the chunk that \<open>audiosocket.SlinMessage\<close> wraps.
\<close>

type_synonym ctx_id = nat
type_synonym conn_id = nat

text \<open>
  What \<open>wsConn.ReadMessage\<close> can return, as far as the goroutine tells the cases apart: a
  text message whose JSON has type "end_of_audio", any other text message, a binary message,
  a message of another type, or an error.
\<close>

datatype ws_message =
    Text_end_of_audio
  | Text_other
  | BinaryMessage "byte list"
  | Other_type
  | Read_error

text \<open>
  Where a relay goroutine stands: before \<open>Dial\<close>, before \<open>WriteJSON\<close>, at the \<open>select\<close>,
  in \<open>ReadMessage\<close>, before \<open>audioWriter.Write\<close> of the chunk it has read, before the
  deferred function that resets \<open>wsCancel\<close>, or finished.
\<close>

datatype relay_pc =
    At_Dial
  | At_WriteJSON
  | At_select
  | At_ReadMessage
  | At_Write "byte list"
  | At_deferred
  | Finished

text \<open>
  A relay goroutine: the \<open>ctx\<close> and \<open>conn\<close> its closure captured, its position, and what
  the synthesis service will do on its websocket (whether \<open>Dial\<close> and \<open>WriteJSON\<close> fail,
  and the messages it delivers, in order). Each goroutine makes its own \<open>AudioWriter\<close>, so
  the mutex of that writer is never shared between two relays and never blocks a step.
\<close>

record relay =
  relay_ctx :: ctx_id
  relay_conn :: conn_id
  relay_pc :: relay_pc
  dial_fails :: bool
  writeJSON_fails :: bool
  incoming :: "ws_message list"

record world =
  wsCancel :: "ctx_id option"
  cancelled :: "ctx_id set"
  relays :: "relay list"
  closed_conns :: "conn_id set"
  wire :: "(conn_id \<times> ctx_id \<times> byte list) list"

definition world_start :: world where
  "world_start = \<lparr>wsCancel = None, cancelled = {}, relays = [], closed_conns = {}, wire = []\<rparr>"

text \<open>
  The synchronous part of \<open>websocketSendReceive\<close> (lines 412 to 420), atomic under
  \<open>wsMutex\<close>: cancel whatever \<open>wsCancel\<close> holds, make a fresh context, store its cancel
  function in \<open>wsCancel\<close>, start the goroutine. The fresh context is the index of the new
  goroutine in \<open>relays\<close>.
\<close>

definition websocketSendReceive ::
  "conn_id \<Rightarrow> bool \<Rightarrow> bool \<Rightarrow> ws_message list \<Rightarrow> world \<Rightarrow> world" where
  "websocketSendReceive conn dial_err json_err msgs w =
     (let w1 = (case wsCancel w of
                  Some previous \<Rightarrow> w\<lparr>cancelled := insert previous (cancelled w)\<rparr>
                | None \<Rightarrow> w);
          ctx = length (relays w1)
      in w1\<lparr>wsCancel := Some ctx,
            relays := relays w1 @
              [\<lparr>relay_ctx = ctx, relay_conn = conn, relay_pc = At_Dial,
                dial_fails = dial_err, writeJSON_fails = json_err, incoming = msgs\<rparr>]\<rparr>)"

text \<open>
  One step of a relay goroutine. \<open>None\<close> means the goroutine cannot move: it has finished,
  or it waits in \<open>ReadMessage\<close> for a message that has not come.
\<close>

definition relay_step :: "relay \<Rightarrow> world \<Rightarrow> (relay \<times> world) option" where
  "relay_step r w =
     (case relay_pc r of
        At_Dial \<Rightarrow>
          Some (r\<lparr>relay_pc := (if dial_fails r then At_deferred else At_WriteJSON)\<rparr>, w)
      | At_WriteJSON \<Rightarrow>
          Some (r\<lparr>relay_pc := (if writeJSON_fails r then At_deferred else At_select)\<rparr>, w)
      | At_select \<Rightarrow>
          Some (r\<lparr>relay_pc :=
                  (if relay_ctx r \<in> cancelled w then At_deferred else At_ReadMessage)\<rparr>, w)
      | At_ReadMessage \<Rightarrow>
          (case incoming r of
             [] \<Rightarrow> None
           | m # rest \<Rightarrow>
               Some (r\<lparr>incoming := rest,
                       relay_pc :=
                         (case m of
                            Read_error \<Rightarrow> At_deferred
                          | Text_end_of_audio \<Rightarrow> At_deferred
                          | Text_other \<Rightarrow> At_select
                          | BinaryMessage chunk \<Rightarrow> At_Write chunk
                          | Other_type \<Rightarrow> At_select)\<rparr>, w))
      | At_Write chunk \<Rightarrow>
          (if relay_conn r \<in> closed_conns w then Some (r\<lparr>relay_pc := At_deferred\<rparr>, w)
           else Some (r\<lparr>relay_pc := At_select\<rparr>,
                      w\<lparr>wire := wire w @ [(relay_conn r, relay_ctx r, chunk)]\<rparr>))
      | At_deferred \<Rightarrow> Some (r\<lparr>relay_pc := Finished\<rparr>, w\<lparr>wsCancel := None\<rparr>)
      | Finished \<Rightarrow> None)"

text \<open>
  What the scheduler can pick: a session calls \<open>websocketSendReceive\<close> on its connection
  (with what the synthesis service will do for that relay), a relay goroutine takes its next
  step, or a session closes its connection on leaving \<open>Handle\<close>.
\<close>

datatype event =
    Start conn_id bool bool "ws_message list"
  | Step ctx_id
  | Close conn_id

definition world_step :: "world \<Rightarrow> event \<Rightarrow> world option" where
  "world_step w e =
     (case e of
        Start conn dial_err json_err msgs \<Rightarrow>
          Some (websocketSendReceive conn dial_err json_err msgs w)
      | Step n \<Rightarrow>
          (if n < length (relays w) then
             (case relay_step (relays w ! n) w of
                None \<Rightarrow> None
              | Some (r', w') \<Rightarrow> Some (w'\<lparr>relays := (relays w')[n := r']\<rparr>))
           else None)
      | Close conn \<Rightarrow> Some (w\<lparr>closed_conns := insert conn (closed_conns w)\<rparr>))"

fun world_run :: "world \<Rightarrow> event list \<Rightarrow> world option" where
  "world_run w [] = Some w"
| "world_run w (e # es) =
     (case world_step w e of None \<Rightarrow> None | Some w' \<Rightarrow> world_run w' es)"

text \<open>The frames on one connection, and the relays that wrote them, in order.\<close>

definition frames_on :: "conn_id \<Rightarrow> world \<Rightarrow> (ctx_id \<times> byte list) list" where
  "frames_on conn w = map snd (filter (\<lambda>f. fst f = conn) (wire w))"

section \<open>Notions used to state the properties\<close>

text \<open>
  An input that gets as far as the detector: an audio message, not at end of stream, with a
  non-empty payload that converts. \<open>frame_samples\<close> is what the conversion yields.
\<close>

definition reaches_vad :: "input \<Rightarrow> bool" where
  "reaches_vad i \<longleftrightarrow>
     NextMessage_err i \<noteq> Err_EOF \<and> Kind (NextMessage_m i) = KindSlin \<and>
     1 \<le> ContentLength (NextMessage_m i) \<and>
     (case pcmToFloat32Array (Payload (NextMessage_m i)) of Inl err \<Rightarrow> False | Inr fa \<Rightarrow> True)"

definition frame_samples :: "input \<Rightarrow> float32 list" where
  "frame_samples i =
     (case pcmToFloat32Array (Payload (NextMessage_m i)) of Inl err \<Rightarrow> [] | Inr fa \<Rightarrow> fa)"

definition speech_frame :: "input \<Rightarrow> bool" where
  "speech_frame i \<longleftrightarrow> reaches_vad i \<and> vad_reply i = Inr True"

definition silence_frame :: "input \<Rightarrow> bool" where
  "silence_frame i \<longleftrightarrow> reaches_vad i \<and> vad_reply i = Inr False"

definition vad_failure_frame :: "input \<Rightarrow> bool" where
  "vad_failure_frame i \<longleftrightarrow> reaches_vad i \<and> (case vad_reply i of Inl err \<Rightarrow> True | Inr b \<Rightarrow> False)"

text \<open>The detector calls an iteration list makes when every message reaches the detector.\<close>

definition vad_calls :: "input list \<Rightarrow> effect list" where
  "vad_calls is = map (\<lambda>i. Vad_Process rate (Payload (NextMessage_m i))) is"

text \<open>
  The effects that come after the denylist test: chat log entries, model calls, relay
  starts.
\<close>

fun downstream :: "effect list \<Rightarrow> effect list" where
  "downstream [] = []"
| "downstream (API_SendMessage chatID role content # rest) =
     API_SendMessage chatID role content # downstream rest"
| "downstream (LLM_Chat chatID model content opts # rest) =
     LLM_Chat chatID model content opts # downstream rest"
| "downstream (WebsocketSendReceive uri d # rest) = WebsocketSendReceive uri d # downstream rest"
| "downstream (_ # rest) = downstream rest"

text \<open>The settings sent with the transcription requests, and the options sent to the model.\<close>

fun transcription_settings :: "effect list \<Rightarrow> STTSettings list" where
  "transcription_settings [] = []"
| "transcription_settings (SendFloat32ArrayToServer url audio st # rest) =
     st # transcription_settings rest"
| "transcription_settings (_ # rest) = transcription_settings rest"

fun model_options :: "effect list \<Rightarrow> Options list" where
  "model_options [] = []"
| "model_options (LLM_Chat chatID model content opts # rest) = opts # model_options rest"
| "model_options (_ # rest) = model_options rest"

text \<open>Concrete inputs for the closed statements below.\<close>

definition stt_example :: STTSettings where
  "stt_example =
     \<lparr>Language = ''en'', BeamSize = Some 5, BestOf = None, Patience = None,
      NoSpeechThreshold = None, Temperature_stt = None, HallucinationSilenceThreshold = None\<rparr>"

definition llm_example :: LLMSettings where
  "llm_example =
     \<lparr>Model = ''gemma2:9b'', Seed = Some 42, SystemPrompt = Some ''be brief'', Mirostat = None,
      MirostatEta = None, MirostatTau = None, NumCtx = None, RepeatLastN = None,
      RepeatPenalty = None, Temperature = Some 0.7, TfsZ = None, NumPredict = None,
      TopK = None, TopP = None, MinP = None\<rparr>"

definition replies_example :: replies where
  "replies_example =
     \<lparr>transcribe_reply = Inr ''hello'', user_message_reply = None,
      chat_reply = Inr ''hi there'', assistant_message_reply = None\<rparr>"

definition audio_example :: "error + bool \<Rightarrow> input" where
  "audio_example verdict =
     \<lparr>NextMessage_m = \<lparr>Kind = KindSlin, ContentLength = 4, Payload = [0x00, 0x40, 0x00, 0xC0]\<rparr>,
      NextMessage_err = Err_nil, vad_reply = verdict, services = replies_example\<rparr>"

definition hangup_example :: input where
  "hangup_example =
     \<lparr>NextMessage_m = \<lparr>Kind = KindHangup, ContentLength = 0, Payload = []\<rparr>,
      NextMessage_err = Err_nil, vad_reply = Inr False, services = replies_example\<rparr>"

definition empty_audio_example :: input where
  "empty_audio_example =
     \<lparr>NextMessage_m = \<lparr>Kind = KindSlin, ContentLength = 0, Payload = []\<rparr>,
      NextMessage_err = Err_nil, vad_reply = Inr True, services = replies_example\<rparr>"

definition session_example :: session where
  "session_example = session_start ''call-1'' stt_example llm_example"

definition long_audio_example :: "error + bool \<Rightarrow> input" where
  "long_audio_example verdict =
     \<lparr>NextMessage_m = \<lparr>Kind = KindSlin, ContentLength = 12800, Payload = replicate 12800 0x40\<rparr>,
      NextMessage_err = Err_nil, vad_reply = verdict, services = replies_example\<rparr>"

definition six_silence_example :: "input list" where
  "six_silence_example =
     [audio_example (Inr False), audio_example (Inr False), audio_example (Inr False),
      audio_example (Inr False), audio_example (Inr False), audio_example (Inr False)]"

definition two_utterances_example :: "input list" where
  "two_utterances_example =
     (long_audio_example (Inr True) # six_silence_example) @
     (long_audio_example (Inr True) # six_silence_example)"

text \<open>
  Two schedules for the closed statements on the relay. In the first, call 1 starts relay 0,
  which relays one chunk and passes the \<open>select\<close> again; call 1 then starts relay 1, which
  cancels context 0 and relays its first chunk; then relay 0 goes on. In the second, call 1
  starts relay 0 and call 2 starts relay 1.
\<close>

definition supersede_prefix :: "event list" where
  "supersede_prefix =
     [Start 1 False False [BinaryMessage [0x0A], BinaryMessage [0x0B], Text_end_of_audio],
      Step 0, Step 0, Step 0, Step 0, Step 0, Step 0,
      Start 1 False False [BinaryMessage [0x14], Text_end_of_audio],
      Step 1, Step 1, Step 1, Step 1, Step 1]"

definition supersede_schedule :: "event list" where
  "supersede_schedule = supersede_prefix @ [Step 0, Step 0, Step 0, Step 0]"

definition cross_call_schedule :: "event list" where
  "cross_call_schedule =
     [Start 1 False False [BinaryMessage [0x0A], BinaryMessage [0x0B], Text_end_of_audio],
      Step 0, Step 0, Step 0,
      Start 2 False False [BinaryMessage [0x14], Text_end_of_audio],
      Step 0, Step 0, Step 0]"

section \<open>Properties of the frame codec\<close>

lemma word_cat_bytes:
  "(ucast (b0::byte) OR push_bit 8 (ucast (b1::byte)) :: int16) = word_cat b1 b0"
  by (simp add: word_cat_eq_push_bit_or or.commute)

lemma uint_word_cat_bytes:
  "uint (word_cat (b1::byte) (b0::byte) :: int16) = uint b0 + 256 * uint b1"
proof -
  have "uint b0 < 256" "uint b1 < 256"
    using uint_bounded [of b0] uint_bounded [of b1] by simp_all
  moreover have "0 \<le> uint b0" "0 \<le> uint b1" by simp_all
  ultimately show ?thesis
    by (simp add: word_cat_eq uint_word_ariths uint_up_ucast is_up push_bit_eq_mult)
qed

lemma signed_take_bit_15:
  assumes "0 \<le> k" "k < 65536"
  shows "signed_take_bit 15 (k::int) = (if k < 32768 then k else k - 65536)"
proof (cases "k < 32768")
  case True
  with assms have "(k + 32768) mod 65536 = k + 32768"
    by (intro mod_pos_pos_trivial) simp_all
  with True show ?thesis
    by (simp add: signed_take_bit_eq_take_bit_shift take_bit_eq_mod)
next
  case False
  have "k + 32768 = k - 32768 + 65536"
    by simp
  then have "(k + 32768) mod 65536 = (k - 32768 + 65536) mod 65536"
    by (rule arg_cong)
  also have "\<dots> = (k - 32768) mod 65536"
    by (rule mod_add_self2)
  also have "\<dots> = k - 32768"
    using assms False by (intro mod_pos_pos_trivial) simp_all
  finally show ?thesis
    using False by (simp add: signed_take_bit_eq_take_bit_shift take_bit_eq_mod)
qed

lemma sint_le_bytes:
  "sint (ucast (b0::byte) OR push_bit 8 (ucast (b1::byte)) :: int16) = sample_le (b0 # b1 # rest) 0"
proof -
  have "uint b0 < 256" "uint b1 < 256"
    using uint_bounded [of b0] uint_bounded [of b1] by simp_all
  moreover have "0 \<le> uint b0" "0 \<le> uint b1" by simp_all
  ultimately have "0 \<le> uint b0 + 256 * uint b1" "uint b0 + 256 * uint b1 < 65536"
    by simp_all
  then show ?thesis
    by (simp add: word_cat_bytes sint_uint uint_word_cat_bytes Let_def signed_take_bit_15
        sample_le_def)
qed

lemma sample_le_Cons2: "sample_le (b0 # b1 # rest) (Suc j) = sample_le rest j"
  by (simp add: sample_le_def)

lemma samples_of_Suc:
  "samples_of (b0 # b1 # rest) (Suc n) =
     of_int (sample_le (b0 # b1 # rest) 0) / 32768 # samples_of rest n"
  unfolding samples_of_def
  by (simp add: upt_conv_Cons map_Suc_upt [symmetric] sample_le_Cons2 del: upt_Suc)

lemma pcm_loop_reads_all:
  "i \<le> length arr \<Longrightarrow> length buf = 2 * (length arr - i) \<Longrightarrow>
   pcm_loop i arr buf = Inr (take i arr @ samples_of buf (length arr - i))"
proof (induction i arr buf rule: pcm_loop.induct)
  case (1 i arr buf)
  show ?case
  proof (cases "i < length arr")
    case False
    then have "pcm_loop i arr buf = Inr arr"
      by (subst pcm_loop.simps) simp
    with False "1.prems" show ?thesis
      by (simp add: samples_of_def)
  next
    case True
    with "1.prems" obtain b0 b1 rest where buf: "buf = b0 # b1 # rest"
      by (cases buf rule: binary_Read_int16.cases) auto
    let ?v = "float32_of_int16 (ucast b0 OR push_bit 8 (ucast b1)) / 32768"
    have len: "length rest = 2 * (length (arr[i := ?v]) - Suc i)"
      using "1.prems" True buf by simp
    have step: "pcm_loop i arr buf = pcm_loop (Suc i) (arr[i := ?v]) rest"
      using True buf by (subst pcm_loop.simps) simp
    have "pcm_loop (Suc i) (arr[i := ?v]) rest =
            Inr (take (Suc i) (arr[i := ?v]) @ samples_of rest (length (arr[i := ?v]) - Suc i))"
      using True buf len by (intro "1.IH" [of "(ucast b0 OR push_bit 8 (ucast b1), rest)"]) auto
    moreover have "take (Suc i) (arr[i := ?v]) = take i arr @ [?v]"
      using True by (simp add: take_Suc_conv_app_nth)
    moreover have "samples_of buf (length arr - i) = ?v # samples_of rest (length arr - Suc i)"
    proof -
      have "length arr - i = Suc (length arr - Suc i)"
        using True by simp
      then have "samples_of buf (length arr - i) = samples_of buf (Suc (length arr - Suc i))"
        by (rule arg_cong)
      also have "\<dots> = ?v # samples_of rest (length arr - Suc i)"
        unfolding buf samples_of_Suc float32_of_int16_def sint_le_bytes [of b0 b1 rest] ..
      finally show ?thesis .
    qed
    ultimately show ?thesis
      using step by simp
  qed
qed

lemma pcmToFloat32Array_even:
  "even (length pcmData) \<Longrightarrow>
   pcmToFloat32Array pcmData = Inr (samples_of pcmData (length pcmData div 2))"
proof -
  assume ev: "even (length pcmData)"
  then have "length pcmData = 2 * (length pcmData div 2)" by simp
  then have "pcm_loop 0 (replicate (length pcmData div 2) 0) pcmData =
               Inr (samples_of pcmData (length pcmData div 2))"
    using pcm_loop_reads_all [of 0 "replicate (length pcmData div 2) 0" pcmData] by simp
  with ev show ?thesis
    by (simp add: pcmToFloat32Array_def)
qed

lemma length_samples_of: "length (samples_of buf n) = n"
  by (simp add: samples_of_def)

text \<open>
  Claim C6. On a byte sequence of odd length \<open>pcmToFloat32Array\<close> fails with the error
  "pcm data length must be even"; on one of even length \<open>2 * n\<close> it succeeds with \<open>n\<close>
  samples, the \<open>i\<close>-th being the \<open>i\<close>-th signed 16-bit little-endian sample divided by
  32768.
\<close>

theorem pcmToFloat32Array_spec:
  "(odd (length pcmData) \<longrightarrow>
      pcmToFloat32Array pcmData = Inl (Error ''pcm data length must be even'')) \<and>
   (even (length pcmData) \<longrightarrow>
      pcmToFloat32Array pcmData =
        Inr (map (\<lambda>i. of_int (sample_le pcmData i) / 32768) [0..<length pcmData div 2]))"
proof (intro conjI impI)
  assume "odd (length pcmData)"
  then show "pcmToFloat32Array pcmData = Inl (Error ''pcm data length must be even'')"
    by (simp add: pcmToFloat32Array_def odd_iff_mod_2_eq_one)
next
  assume ev: "even (length pcmData)"
  then have "length pcmData = 2 * (length pcmData div 2)" by simp
  then have "pcm_loop 0 (replicate (length pcmData div 2) 0) pcmData =
               Inr (samples_of pcmData (length pcmData div 2))"
    using pcm_loop_reads_all [of 0 "replicate (length pcmData div 2) 0" pcmData] by simp
  with ev show "pcmToFloat32Array pcmData =
        Inr (map (\<lambda>i. of_int (sample_le pcmData i) / 32768) [0..<length pcmData div 2])"
    by (simp add: pcmToFloat32Array_def samples_of_def)
qed

theorem pcmToFloat32Array_spec_witness:
  "pcmToFloat32Array [0x00, 0x80, 0xFF] = Inl (Error ''pcm data length must be even'') \<and>
   pcmToFloat32Array [0x00, 0x80, 0xFF, 0x7F] = Inr [- 1, 32767 / 32768]"
  using pcmToFloat32Array_spec [of "[0x00, 0x80, 0xFF]"]
    pcmToFloat32Array_spec [of "[0x00, 0x80, 0xFF, 0x7F]"]
  by (simp add: sample_le_def upt_conv_Cons)

section \<open>Properties of the read loop\<close>

lemma speech_frame_example: "speech_frame (audio_example (Inr True))"
  by (simp add: speech_frame_def reaches_vad_def audio_example_def pcmToFloat32Array_def
      pcm_loop.simps)

lemma silence_frame_example: "silence_frame (audio_example (Inr False))"
  by (simp add: silence_frame_def reaches_vad_def audio_example_def pcmToFloat32Array_def
      pcm_loop.simps)

lemma vad_failure_frame_example: "vad_failure_frame (audio_example (Inl (Error ''vad'')))"
  by (simp add: vad_failure_frame_def reaches_vad_def audio_example_def pcmToFloat32Array_def
      pcm_loop.simps)

lemma frame_samples_example: "frame_samples (audio_example verdict) = [1 / 2, - 1 / 2]"
  by (simp add: frame_samples_def audio_example_def pcmToFloat32Array_def pcm_loop.simps
      float32_of_int16_def)

lemma Payload_example: "Payload (NextMessage_m (audio_example verdict)) = [0x00, 0x40, 0x00, 0xC0]"
  by (simp add: audio_example_def)

lemma dispatched_append: "dispatched (xs @ ys) = dispatched xs @ dispatched ys"
  by (induction xs rule: dispatched.induct) simp_all

lemma dispatched_vad_calls: "dispatched (vad_calls is) = []"
  by (induction "is") (simp_all add: vad_calls_def)

lemma dispatched_after_transcription:
  "dispatched (after_transcription chatID llm env t) = []"
  by (simp add: after_transcription_def llm_option_logs_def dispatched_append
      split: option.splits sum.splits)

lemma dispatched_handleInputAudio: "dispatched (handleInputAudio chatID buffer stt llm env) = []"
  by (simp add: handleInputAudio_def Let_def dispatched_after_transcription split: sum.splits)

lemma Handle_loop_append:
  "Handle_loop s (xs @ ys) =
     (case Handle_loop s xs of
        (out, None) \<Rightarrow> (out, None)
      | (out, Some s') \<Rightarrow> (case Handle_loop s' ys of (out', r) \<Rightarrow> (out @ out', r)))"
  by (induction xs arbitrary: s) (auto split: prod.splits option.splits)

lemma Handle_body_speech:
  "speech_frame i \<Longrightarrow>
   Handle_body s i =
     ([Vad_Process rate (Payload (NextMessage_m i))],
      Some (s\<lparr>inputAudioBuffer := inputAudioBuffer s @ [frame_samples i], silenceCount := 0\<rparr>))"
  by (auto simp: speech_frame_def reaches_vad_def frame_samples_def Handle_body_def Let_def
      split: sum.splits)

lemma Handle_body_silence_below:
  "silence_frame i \<Longrightarrow> silenceCount s < 5 \<Longrightarrow>
   Handle_body s i =
     ([Vad_Process rate (Payload (NextMessage_m i))],
      Some (s\<lparr>silenceCount := silenceCount s + 1\<rparr>))"
  by (auto simp: silence_frame_def reaches_vad_def Handle_body_def Let_def silenceThreshold_def
      split: sum.splits)

lemma Handle_body_silence_idle:
  "silence_frame i \<Longrightarrow> inputAudioBuffer s = [] \<Longrightarrow>
   Handle_body s i =
     ([Vad_Process rate (Payload (NextMessage_m i))],
      Some (s\<lparr>silenceCount := silenceCount s + 1\<rparr>))"
  by (auto simp: silence_frame_def reaches_vad_def Handle_body_def Let_def silenceThreshold_def
      split: sum.splits)

lemma Handle_body_silence_close:
  "silence_frame i \<Longrightarrow> 5 \<le> silenceCount s \<Longrightarrow> inputAudioBuffer s \<noteq> [] \<Longrightarrow>
   Handle_body s i =
     ([Vad_Process rate (Payload (NextMessage_m i)), Log ''Processing complete sentence'',
       Call_handleInputAudio (inputAudioBuffer s)] @
      handleInputAudio (ChatID s) (inputAudioBuffer s) (sttSettings s) (llmSettings s)
        (services i),
      Some (s\<lparr>silenceCount := silenceCount s + 1, inputAudioBuffer := []\<rparr>))"
  by (auto simp: silence_frame_def reaches_vad_def Handle_body_def Let_def silenceThreshold_def
      split: sum.splits)

lemma Handle_loop_speech_run:
  "\<forall>i\<in>set sp. speech_frame i \<Longrightarrow> sp \<noteq> [] \<Longrightarrow>
   Handle_loop s sp =
     (vad_calls sp,
      Some (s\<lparr>inputAudioBuffer := inputAudioBuffer s @ map frame_samples sp, silenceCount := 0\<rparr>))"
proof (induction sp arbitrary: s)
  case Nil
  then show ?case by simp
next
  case (Cons i sp)
  show ?case
  proof (cases "sp = []")
    case True
    with Cons.prems show ?thesis
      by (simp add: Handle_body_speech vad_calls_def)
  next
    case False
    with Cons show ?thesis
      by (simp add: Handle_body_speech vad_calls_def)
  qed
qed

lemma Handle_loop_silence_run:
  "\<forall>i\<in>set sil. silence_frame i \<Longrightarrow> silenceCount s + int (length sil) \<le> 5 \<Longrightarrow>
   Handle_loop s sil =
     (vad_calls sil, Some (s\<lparr>silenceCount := silenceCount s + int (length sil)\<rparr>))"
proof (induction sil arbitrary: s)
  case Nil
  then show ?case by (simp add: vad_calls_def)
next
  case (Cons i sil)
  from Cons.prems have below: "silenceCount s < 5" by simp
  from Cons.prems have "Handle_loop (s\<lparr>silenceCount := silenceCount s + 1\<rparr>) sil =
      (vad_calls sil,
       Some (s\<lparr>silenceCount := silenceCount s + 1,
                silenceCount := silenceCount s + 1 + int (length sil)\<rparr>))"
    using Cons.IH [of "s\<lparr>silenceCount := silenceCount s + 1\<rparr>"] by simp
  with Cons.prems below show ?case
    by (simp add: Handle_body_silence_below vad_calls_def add.assoc)
qed

lemma Handle_loop_idle_silence_run:
  "\<forall>i\<in>set later. silence_frame i \<Longrightarrow> inputAudioBuffer s = [] \<Longrightarrow>
   Handle_loop s later =
     (vad_calls later, Some (s\<lparr>silenceCount := silenceCount s + int (length later)\<rparr>))"
proof (induction later arbitrary: s)
  case Nil
  then show ?case by (simp add: vad_calls_def)
next
  case (Cons i later)
  from Cons.prems have "Handle_loop (s\<lparr>silenceCount := silenceCount s + 1\<rparr>) later =
      (vad_calls later,
       Some (s\<lparr>silenceCount := silenceCount s + 1,
                silenceCount := silenceCount s + 1 + int (length later)\<rparr>))"
    using Cons.IH [of "s\<lparr>silenceCount := silenceCount s + 1\<rparr>"] by simp
  with Cons.prems show ?case
    by (simp add: Handle_body_silence_idle vad_calls_def add.assoc)
qed

text \<open>
  Claim C1, as the code has it. From a state with an empty utterance buffer, let one or more
  speech frames be followed by silence frames. After five silence frames nothing has been
  handed over and the buffer holds the speech frames. The sixth consecutive silence frame
  hands over exactly one utterance, made of the speech frames only; further silence frames
  hand over nothing; and the next speech frame starts a new utterance at once.
\<close>

theorem utterance_closed_by_sixth_silence:
  assumes idle: "inputAudioBuffer s = []"
    and sp: "sp \<noteq> []" "\<forall>i\<in>set sp. speech_frame i"
    and sil: "length sil = 5" "\<forall>i\<in>set sil. silence_frame i"
    and sixth: "silence_frame sixth"
    and later: "\<forall>i\<in>set later. silence_frame i"
    and g: "speech_frame g"
  shows "dispatched (fst (Handle_loop s (sp @ sil))) = [] \<and>
         map_option inputAudioBuffer (snd (Handle_loop s (sp @ sil))) =
           Some (map frame_samples sp) \<and>
         dispatched (fst (Handle_loop s (sp @ sil @ [sixth] @ later))) = [map frame_samples sp] \<and>
         map_option inputAudioBuffer (snd (Handle_loop s (sp @ sil @ [sixth] @ later))) = Some [] \<and>
         dispatched (fst (Handle_loop s (sp @ sil @ [sixth] @ later @ [g]))) =
           [map frame_samples sp] \<and>
         map_option inputAudioBuffer (snd (Handle_loop s (sp @ sil @ [sixth] @ later @ [g]))) =
           Some [frame_samples g]"
proof -
  define s1 where "s1 = s\<lparr>inputAudioBuffer := map frame_samples sp, silenceCount := 0\<rparr>"
  define s2 where "s2 = s1\<lparr>silenceCount := 5\<rparr>"
  define s3 where "s3 = s2\<lparr>silenceCount := 6, inputAudioBuffer := []\<rparr>"
  define s4 where "s4 = s3\<lparr>silenceCount := 6 + int (length later)\<rparr>"
  define s5 where "s5 = s4\<lparr>inputAudioBuffer := [frame_samples g], silenceCount := 0\<rparr>"
  define closing where "closing =
    [Vad_Process rate (Payload (NextMessage_m sixth)), Log ''Processing complete sentence'',
     Call_handleInputAudio (map frame_samples sp)] @
    handleInputAudio (ChatID s2) (map frame_samples sp) (sttSettings s2) (llmSettings s2)
      (services sixth)"
  have r1: "Handle_loop s sp = (vad_calls sp, Some s1)"
    using Handle_loop_speech_run [OF sp(2) sp(1), of s] idle by (simp add: s1_def)
  have r2: "Handle_loop s1 sil = (vad_calls sil, Some s2)"
    using Handle_loop_silence_run [OF sil(2), of s1] sil(1) by (simp add: s1_def s2_def)
  have buf2: "inputAudioBuffer s2 = map frame_samples sp" "silenceCount s2 = 5"
    by (simp_all add: s1_def s2_def)
  have r3: "Handle_body s2 sixth = (closing, Some s3)"
    using Handle_body_silence_close [OF sixth, of s2] buf2 sp(1)
    by (simp add: closing_def s3_def)
  have r4: "Handle_loop s3 later = (vad_calls later, Some s4)"
    using Handle_loop_idle_silence_run [OF later, of s3] by (simp add: s3_def s4_def)
  have r5: "Handle_body s4 g = ([Vad_Process rate (Payload (NextMessage_m g))], Some s5)"
    using Handle_body_speech [OF g, of s4] by (simp add: s5_def s4_def s3_def)
  have d_closing: "dispatched closing = [map frame_samples sp]"
    by (simp add: closing_def dispatched_handleInputAudio dispatched_append)
  have a: "Handle_loop s (sp @ sil) = (vad_calls sp @ vad_calls sil, Some s2)"
    by (simp add: Handle_loop_append r1 r2)
  have b: "Handle_loop s (sp @ sil @ [sixth] @ later) =
             (vad_calls sp @ vad_calls sil @ closing @ vad_calls later, Some s4)"
    by (simp add: Handle_loop_append [of s sp] Handle_loop_append [of s1 sil] r1 r2 r3 r4)
  have c: "Handle_loop s (sp @ sil @ [sixth] @ later @ [g]) =
             (vad_calls sp @ vad_calls sil @ closing @ vad_calls later @
              [Vad_Process rate (Payload (NextMessage_m g))], Some s5)"
    by (simp add: Handle_loop_append [of s sp] Handle_loop_append [of s1 sil]
        Handle_loop_append [of s3 later] r1 r2 r3 r4 r5)
  show ?thesis
    unfolding a b c
    by (simp add: dispatched_append dispatched_vad_calls d_closing buf2
        s3_def s4_def s5_def)
qed

theorem utterance_closed_by_sixth_silence_witness:
  "dispatched (fst (Handle_loop session_example
      ([audio_example (Inr True), audio_example (Inr True)] @
       replicate 5 (audio_example (Inr False))))) = [] \<and>
   dispatched (fst (Handle_loop session_example
      ([audio_example (Inr True), audio_example (Inr True)] @
       replicate 5 (audio_example (Inr False)) @ [audio_example (Inr False)] @
       [audio_example (Inr False)] @ [audio_example (Inr True)]))) =
     [[[1 / 2, - 1 / 2], [1 / 2, - 1 / 2]]] \<and>
   map_option inputAudioBuffer (snd (Handle_loop session_example
      ([audio_example (Inr True), audio_example (Inr True)] @
       replicate 5 (audio_example (Inr False)) @ [audio_example (Inr False)] @
       [audio_example (Inr False)] @ [audio_example (Inr True)]))) = Some [[1 / 2, - 1 / 2]]"
  using utterance_closed_by_sixth_silence [of session_example
      "[audio_example (Inr True), audio_example (Inr True)]"
      "replicate 5 (audio_example (Inr False))" "audio_example (Inr False)"
      "[audio_example (Inr False)]" "audio_example (Inr True)"]
  by (simp add: speech_frame_example silence_frame_example frame_samples_example
      session_example_def session_start_def del: Handle_loop.simps replicate.simps)

text \<open>
  Claim C1 as stated fails: one speech frame and five silence frames from session start
  hand over no utterance; the buffer still holds the speech frame and the counter is 5.
\<close>

theorem five_silence_frames_close_nothing:
  "Handle_loop session_example
     [audio_example (Inr True), audio_example (Inr False), audio_example (Inr False),
      audio_example (Inr False), audio_example (Inr False), audio_example (Inr False)] =
   (replicate 6 (Vad_Process 16000 [0x00, 0x40, 0x00, 0xC0]),
    Some (session_example\<lparr>inputAudioBuffer := [[1 / 2, - 1 / 2]], silenceCount := 5\<rparr>))"
  by (simp add: Handle_body_speech Handle_body_silence_below speech_frame_example
      silence_frame_example frame_samples_example Payload_example rate_def
      session_example_def session_start_def numeral_eq_Suc)

text \<open>
  Claim C5, as the code has it. When the detector fails on a frame, the failure is logged and
  the frame is skipped: the utterance buffer and the silence counter are both left as they
  were (the frame is not appended, the counter is not incremented), and the loop goes on.
\<close>

theorem vad_failure_skips_frame:
  "vad_failure_frame i \<Longrightarrow>
   Handle_body s i =
     ([Vad_Process rate (Payload (NextMessage_m i)), Log ''Error processing VAD:''], Some s)"
  by (auto simp: vad_failure_frame_def reaches_vad_def Handle_body_def Let_def split: sum.splits)

theorem vad_failure_skips_frame_witness:
  "vad_failure_frame (audio_example (Inl (Error ''vad''))) \<and>
   Handle_body session_example (audio_example (Inl (Error ''vad''))) =
     ([Vad_Process 16000 [0x00, 0x40, 0x00, 0xC0], Log ''Error processing VAD:''],
      Some session_example)"
  using vad_failure_skips_frame [of "audio_example (Inl (Error ''vad''))" session_example]
  by (simp add: vad_failure_frame_example Payload_example rate_def)

text \<open>
  Claim C5 as stated fails: on the same state a detector failure leaves the silence counter
  at 0, a silence frame makes it 1.
\<close>

theorem vad_failure_is_not_silence:
  "map_option silenceCount (snd (Handle_body session_example (audio_example (Inl (Error ''vad''))))) =
     Some 0 \<and>
   map_option silenceCount (snd (Handle_body session_example (audio_example (Inr False)))) =
     Some 1"
  by (simp add: Handle_body_def audio_example_def pcmToFloat32Array_def pcm_loop.simps
      session_example_def session_start_def silenceThreshold_def)

lemma Handle_body_hangup:
  "Kind (NextMessage_m i) = KindHangup \<Longrightarrow>
   Handle_body s i =
     ([Log (if NextMessage_err i = Err_EOF then ''audiosocket closed''
            else ''audiosocket received hangup command'')], None)"
  by (simp add: Handle_body_def Let_def)

text \<open>
  Claim C8. Wherever the loop stands, with whatever is in the utterance buffer, a hangup
  message ends the session: the only effect is the log line, nothing is handed to
  \<open>handleInputAudio\<close>, and no later message is read.
\<close>

theorem hangup_ends_session:
  "Kind (NextMessage_m i) = KindHangup \<Longrightarrow> Handle_loop s before = (out, Some s') \<Longrightarrow>
   Handle_loop s (before @ i # rest) =
     (out @ [Log (if NextMessage_err i = Err_EOF then ''audiosocket closed''
                  else ''audiosocket received hangup command'')], None)"
  by (simp add: Handle_loop_append Handle_body_hangup)

theorem hangup_ends_session_witness:
  "Kind (NextMessage_m hangup_example) = KindHangup \<and>
   Handle_loop session_example [audio_example (Inr True)] =
     ([Vad_Process 16000 [0x00, 0x40, 0x00, 0xC0]],
      Some (session_example\<lparr>inputAudioBuffer := [[1 / 2, - 1 / 2]], silenceCount := 0\<rparr>)) \<and>
   Handle_loop session_example
     ([audio_example (Inr True)] @ hangup_example # [audio_example (Inr False)]) =
     ([Vad_Process 16000 [0x00, 0x40, 0x00, 0xC0],
       Log ''audiosocket received hangup command''], None)"
proof -
  have k: "Kind (NextMessage_m hangup_example) = KindHangup"
    by (simp add: hangup_example_def)
  have e: "NextMessage_err hangup_example \<noteq> Err_EOF"
    by (simp add: hangup_example_def)
  have b: "Handle_loop session_example [audio_example (Inr True)] =
     ([Vad_Process 16000 [0x00, 0x40, 0x00, 0xC0]],
      Some (session_example\<lparr>inputAudioBuffer := [[1 / 2, - 1 / 2]], silenceCount := 0\<rparr>))"
    by (simp add: Handle_body_speech speech_frame_example frame_samples_example
        Payload_example rate_def session_example_def session_start_def)
  show ?thesis
    using hangup_ends_session [OF k b, of "[audio_example (Inr False)]"] k b e
    by (simp del: Handle_loop.simps)
qed

text \<open>
  Claim C10. An audio message whose content length is below 1 is logged and skipped: the
  detector is not called, the state (buffer and counter) is unchanged, and the loop goes on
  with the next message.
\<close>

theorem empty_audio_frame_skipped:
  "NextMessage_err i \<noteq> Err_EOF \<Longrightarrow> Kind (NextMessage_m i) = KindSlin \<Longrightarrow>
   ContentLength (NextMessage_m i) < 1 \<Longrightarrow>
   Handle_body s i = ([Log ''no audio data''], Some s) \<and>
   Handle_loop s (i # rest) =
     (Log ''no audio data'' # fst (Handle_loop s rest), snd (Handle_loop s rest))"
  by (simp add: Handle_body_def Let_def split: prod.splits)

theorem empty_audio_frame_skipped_witness:
  "NextMessage_err empty_audio_example \<noteq> Err_EOF \<and>
   Kind (NextMessage_m empty_audio_example) = KindSlin \<and>
   ContentLength (NextMessage_m empty_audio_example) < 1 \<and>
   Handle_body (session_example\<lparr>inputAudioBuffer := [[1 / 2]], silenceCount := 3\<rparr>)
     empty_audio_example =
     ([Log ''no audio data''],
      Some (session_example\<lparr>inputAudioBuffer := [[1 / 2]], silenceCount := 3\<rparr>))"
  using empty_audio_frame_skipped [of empty_audio_example
      "session_example\<lparr>inputAudioBuffer := [[1 / 2]], silenceCount := 3\<rparr>" "[]"]
  by (simp add: empty_audio_example_def)

section \<open>Properties of the utterance processor\<close>

lemma total_samples:
  "foldl (\<lambda>total buffer. total + int (length buffer)) a bs = a + int (sum_list (map length bs))"
  by (induction bs arbitrary: a) simp_all

lemma calculateAudioLength_eq:
  "calculateAudioLength buffer sampleRate =
     of_nat (sum_list (map length buffer)) / of_int sampleRate"
  by (simp add: calculateAudioLength_def total_samples)

lemma audio_length_threshold:
  "calculateAudioLength buffer 16000 < 0.40 \<longleftrightarrow> sum_list (map length buffer) < 6400"
proof -
  have "(of_nat (sum_list (map length buffer)) :: rat) / 16000 < 2 / 5 \<longleftrightarrow>
        (of_nat (sum_list (map length buffer)) :: rat) < of_nat 6400"
    by (simp add: field_simps)
  also have "\<dots> \<longleftrightarrow> sum_list (map length buffer) < 6400"
    by (simp only: of_nat_less_iff)
  finally show ?thesis
    by (simp add: calculateAudioLength_eq)
qed

lemma excluded_iff: "excluded transcription ws \<longleftrightarrow> transcription \<in> set ws"
  by (induction ws) auto

lemma downstream_append: "downstream (xs @ ys) = downstream xs @ downstream ys"
  by (induction xs rule: downstream.induct) simp_all

lemma downstream_llm_option_logs: "downstream llm_option_logs = []"
  by (simp add: llm_option_logs_def)

text \<open>
  Claim C7. When the transcript that comes back equals an entry of \<open>excludedWords\<close>,
  \<open>handleInputAudio\<close> stops there: no message goes to the chat log, the model is not
  called and no relay is started. If the utterance was long enough to be transcribed, the
  effects are the transcription request and log lines only.
\<close>

theorem denylisted_transcript_stops_processing:
  "transcribe_reply env = Inr transcription \<Longrightarrow> transcription \<in> set excludedWords \<Longrightarrow>
   downstream (handleInputAudio chatID buffer stt llm env) = [] \<and>
   (\<not> calculateAudioLength buffer 16000 < 0.40 \<longrightarrow>
      handleInputAudio chatID buffer stt llm env =
        [Log ''Audio length:'',
         SendFloat32ArrayToServer ''http://localhost:8002/complete_transcribe_r''
           (foldl (\<lambda>merged data. merged @ data) [] buffer) (stt\<lparr>Language := ''ru''\<rparr>)] @
        llm_option_logs @
        [Log ''Transcription contains excluded word, stopping further processing.''])"
  by (simp add: handleInputAudio_def after_transcription_def Let_def excluded_iff
      downstream_append downstream_llm_option_logs)

theorem denylisted_transcript_stops_processing_witness:
  "transcribe_reply (replies_example\<lparr>transcribe_reply := Inr (hd excludedWords)\<rparr>) =
     Inr (hd excludedWords) \<and>
   hd excludedWords \<in> set excludedWords \<and>
   \<not> calculateAudioLength [replicate 6400 (1 / 2)] 16000 < 0.40 \<and>
   downstream (handleInputAudio ''call-1'' [replicate 6400 (1 / 2)] stt_example llm_example
     (replies_example\<lparr>transcribe_reply := Inr (hd excludedWords)\<rparr>)) = []"
proof -
  have long: "\<not> calculateAudioLength [replicate 6400 (1 / 2)] 16000 < 0.40"
    by (simp only: audio_length_threshold) simp
  show ?thesis
    using denylisted_transcript_stops_processing
      [of "replies_example\<lparr>transcribe_reply := Inr (hd excludedWords)\<rparr>" "hd excludedWords"
        "''call-1''" "[replicate 6400 (1 / 2)]" stt_example llm_example] long
    by (simp add: excludedWords_def downstream_append downstream_llm_option_logs)
qed

lemma transcription_settings_append:
  "transcription_settings (xs @ ys) = transcription_settings xs @ transcription_settings ys"
  by (induction xs rule: transcription_settings.induct) simp_all

lemma model_options_append: "model_options (xs @ ys) = model_options xs @ model_options ys"
  by (induction xs rule: model_options.induct) simp_all

lemma transcription_settings_after_transcription:
  "transcription_settings (after_transcription chatID llm env t) = []"
  by (simp add: after_transcription_def llm_option_logs_def transcription_settings_append
      split: option.splits sum.splits)

lemma transcription_settings_handleInputAudio:
  "transcription_settings (handleInputAudio chatID buffer stt llm env) =
     (if calculateAudioLength buffer 16000 < 0.40 then [] else [stt\<lparr>Language := ''ru''\<rparr>])"
  by (simp add: handleInputAudio_def Let_def transcription_settings_after_transcription
      split: sum.splits)

lemma model_options_after_transcription:
  "opts \<in> set (model_options (after_transcription chatID llm env t)) \<Longrightarrow>
   opts = llmOptions_of llm"
  by (auto simp: after_transcription_def llm_option_logs_def model_options_append Let_def
      split: option.splits sum.splits if_splits)

lemma model_options_handleInputAudio:
  "opts \<in> set (model_options (handleInputAudio chatID buffer stt llm env)) \<Longrightarrow>
   opts = llmOptions_of llm"
  by (auto simp: handleInputAudio_def Let_def split: sum.splits if_splits
      dest: model_options_after_transcription)

lemma Handle_body_settings:
  "Handle_body s i = (out, Some s') \<Longrightarrow>
   sttSettings s' = sttSettings s \<and> llmSettings s' = llmSettings s"
  by (auto simp: Handle_body_def Let_def split: if_splits kind.splits sum.splits)

lemma Handle_body_requests:
  "Handle_body s i = (out, r) \<Longrightarrow>
   (\<forall>st\<in>set (transcription_settings out). st = (sttSettings s)\<lparr>Language := ''ru''\<rparr>) \<and>
   (\<forall>opts\<in>set (model_options out). opts = llmOptions_of (llmSettings s))"
  by (auto simp: Handle_body_def Let_def transcription_settings_handleInputAudio
      split: if_splits kind.splits sum.splits dest: model_options_handleInputAudio)

text \<open>
  Claim C9. Over any run of the loop the settings held by the session stay as fetched;
  every transcription request carries the fetched speech-to-text settings with the language
  forced to "ru", and every model call carries the options of the fetched model settings.
\<close>

theorem settings_snapshot_unchanged:
  "(\<forall>s'. snd (Handle_loop s inputs) = Some s' \<longrightarrow>
      sttSettings s' = sttSettings s \<and> llmSettings s' = llmSettings s) \<and>
   (\<forall>st\<in>set (transcription_settings (fst (Handle_loop s inputs))).
      st = (sttSettings s)\<lparr>Language := ''ru''\<rparr>) \<and>
   (\<forall>opts\<in>set (model_options (fst (Handle_loop s inputs))).
      opts = llmOptions_of (llmSettings s))"
proof (induction inputs arbitrary: s)
  case Nil
  show ?case by simp
next
  case (Cons i inputs)
  obtain out r where body: "Handle_body s i = (out, r)"
    by (cases "Handle_body s i")
  note req = Handle_body_requests [OF body]
  show ?case
  proof (cases r)
    case None
    with body req show ?thesis by simp
  next
    case (Some s1)
    with body have same: "sttSettings s1 = sttSettings s" "llmSettings s1 = llmSettings s"
      using Handle_body_settings [of s i out s1] by simp_all
    obtain out' r' where rest: "Handle_loop s1 inputs = (out', r')"
      by (cases "Handle_loop s1 inputs")
    have loop: "Handle_loop s (i # inputs) = (out @ out', r')"
      using body Some rest by simp
    from Cons.IH [of s1] rest same
    have ih: "\<forall>s'. r' = Some s' \<longrightarrow>
                sttSettings s' = sttSettings s \<and> llmSettings s' = llmSettings s"
             "\<forall>st\<in>set (transcription_settings out'). st = (sttSettings s)\<lparr>Language := ''ru''\<rparr>"
             "\<forall>opts\<in>set (model_options out'). opts = llmOptions_of (llmSettings s)"
      by simp_all
    show ?thesis
      unfolding loop using req ih
      by (auto simp: transcription_settings_append model_options_append)
  qed
qed

lemma speech_frame_long_example: "speech_frame (long_audio_example (Inr True))"
  by (simp add: speech_frame_def reaches_vad_def long_audio_example_def pcmToFloat32Array_even)

lemma frame_samples_long_example:
  "frame_samples (long_audio_example verdict) = samples_of (replicate 12800 0x40) 6400"
  by (simp add: frame_samples_def long_audio_example_def pcmToFloat32Array_even)

lemma utterance_example:
  assumes "inputAudioBuffer s = []"
  shows "\<exists>out s'. Handle_loop s
           (long_audio_example (Inr True) # six_silence_example) =
           (out, Some s') \<and> inputAudioBuffer s' = [] \<and>
           transcription_settings out = [(sttSettings s)\<lparr>Language := ''ru''\<rparr>]"
proof -
  let ?b = "[samples_of (replicate 12800 0x40) 6400]"
  have long: "\<not> calculateAudioLength ?b 16000 < 0.40"
    by (simp only: audio_length_threshold) (simp add: length_samples_of)
  show ?thesis
    using assms long
    by (simp add: Handle_body_speech Handle_body_silence_below Handle_body_silence_close
        speech_frame_long_example silence_frame_example frame_samples_long_example
        six_silence_example_def transcription_settings_append
        transcription_settings_handleInputAudio)
qed

lemma two_utterances_example_shape:
  "\<exists>a b s'. transcription_settings (fst (Handle_loop session_example two_utterances_example)) =
      [a, b] \<and> snd (Handle_loop session_example two_utterances_example) = Some s'"
proof -
  have "inputAudioBuffer session_example = []"
    by (simp add: session_example_def session_start_def)
  from utterance_example [OF this] obtain out1 s1 where
    first: "Handle_loop session_example (long_audio_example (Inr True) # six_silence_example) =
              (out1, Some s1)"
    and s1: "inputAudioBuffer s1 = []"
    and t1: "transcription_settings out1 = [(sttSettings session_example)\<lparr>Language := ''ru''\<rparr>]"
    by blast
  from utterance_example [OF s1] obtain out2 s2 where
    second: "Handle_loop s1 (long_audio_example (Inr True) # six_silence_example) =
               (out2, Some s2)"
    and t2: "transcription_settings out2 = [(sttSettings s1)\<lparr>Language := ''ru''\<rparr>]"
    by blast
  have "Handle_loop session_example two_utterances_example = (out1 @ out2, Some s2)"
    by (simp only: two_utterances_example_def Handle_loop_append first second
        prod.case option.case)
  then show ?thesis
    by (simp add: transcription_settings_append t1 t2)
qed

theorem settings_snapshot_unchanged_witness:
  "transcription_settings (fst (Handle_loop session_example two_utterances_example)) =
     [stt_example\<lparr>Language := ''ru''\<rparr>, stt_example\<lparr>Language := ''ru''\<rparr>] \<and>
   map_option sttSettings (snd (Handle_loop session_example two_utterances_example)) =
     Some stt_example \<and>
   map_option llmSettings (snd (Handle_loop session_example two_utterances_example)) =
     Some llm_example"
proof -
  obtain a b s' where
    ab: "transcription_settings (fst (Handle_loop session_example two_utterances_example)) = [a, b]"
    and s': "snd (Handle_loop session_example two_utterances_example) = Some s'"
    using two_utterances_example_shape by blast
  have stt: "sttSettings session_example = stt_example"
    and llm: "llmSettings session_example = llm_example"
    by (simp_all add: session_example_def session_start_def)
  show ?thesis
    using settings_snapshot_unchanged [of session_example two_utterances_example]
    by (simp add: ab s' stt llm)
qed

text \<open>
  Claim C4 at an utterance of 20 frames of 160 samples. At the stream's rate of 8000 Hz it
  lasts 0.40 s, which the claim says is transcribed. \<open>handleInputAudio\<close> divides by
  16000, gets 0.20 s and rejects it without a transcription request.
\<close>

theorem utterance_of_400ms_at_8kHz_is_rejected:
  "calculateAudioLength (replicate 20 (replicate 160 (1 / 2))) 8000 = 0.40 \<and>
   calculateAudioLength (replicate 20 (replicate 160 (1 / 2))) 16000 = 0.20 \<and>
   handleInputAudio ''call-1'' (replicate 20 (replicate 160 (1 / 2))) stt_example llm_example
     replies_example =
     [Log ''Audio length:'',
      Log ''Audio length is less than 0.45 seconds, skipping processing.'']"
proof -
  have n: "sum_list (map length (replicate 20 (replicate 160 (1 / 2 :: rat)))) = 3200"
    by (simp add: sum_list_replicate)
  have short: "calculateAudioLength (replicate 20 (replicate 160 (1 / 2))) 16000 < 0.40"
    unfolding audio_length_threshold n by simp
  have "handleInputAudio ''call-1'' (replicate 20 (replicate 160 (1 / 2))) stt_example llm_example
     replies_example =
     [Log ''Audio length:'',
      Log ''Audio length is less than 0.45 seconds, skipping processing.'']"
    unfolding handleInputAudio_def Let_def using short by (simp only: if_True)
  moreover have "calculateAudioLength (replicate 20 (replicate 160 (1 / 2))) 8000 = 0.40"
    "calculateAudioLength (replicate 20 (replicate 160 (1 / 2))) 16000 = 0.20"
    by (simp_all only: calculateAudioLength_eq n) simp_all
  ultimately show ?thesis by blast
qed

text \<open>
  The duration test of \<open>handleInputAudio\<close> in samples: a transcription is requested exactly from
  6400 samples on.
\<close>

lemma transcription_requested_iff:
  "transcription_settings (handleInputAudio chatID buffer stt llm env) \<noteq> [] \<longleftrightarrow>
   6400 \<le> sum_list (map length buffer)"
  unfolding transcription_settings_handleInputAudio audio_length_threshold
  by (simp add: not_less)

section \<open>Properties of the playback relay\<close>

text \<open>
  Claim C2 on the first schedule. Relay 0 has passed its \<open>select\<close> when call 1 starts
  relay 1. After relay 1 has written its first frame, context 0 is cancelled and the
  connection carries one frame of each relay. Relay 0 then reads and writes its next chunk
  before it looks at its context again: the connection carries a frame of relay 0 after the
  first frame of relay 1, and relay 0, on finishing, resets \<open>wsCancel\<close> although it holds
  the cancel function of relay 1.
\<close>

theorem superseded_relay_writes_after_new_relay:
  "map_option cancelled (world_run world_start supersede_prefix) = Some {0} \<and>
   map_option (frames_on 1) (world_run world_start supersede_prefix) =
     Some [(0, [0x0A]), (1, [0x14])] \<and>
   map_option (frames_on 1) (world_run world_start supersede_schedule) =
     Some [(0, [0x0A]), (1, [0x14]), (0, [0x0B])] \<and>
   map_option wsCancel (world_run world_start supersede_schedule) = Some None"
  by (simp add: supersede_schedule_def supersede_prefix_def world_start_def world_step_def
      relay_step_def websocketSendReceive_def frames_on_def)

text \<open>
  Whatever connection the new relay is for, starting it cancels the context whose cancel
  function \<open>wsCancel\<close> holds.
\<close>

lemma websocketSendReceive_cancels_holder:
  "wsCancel w = Some k \<Longrightarrow> k \<in> cancelled (websocketSendReceive conn dial_err json_err msgs w)"
  by (simp add: websocketSendReceive_def Let_def)

text \<open>
  Claim C3 on the second schedule. Relay 0 plays for call 1 and waits in \<open>ReadMessage\<close>
  when call 2 starts relay 1. That start cancels context 0, the context of call 1's relay:
  relay 0 writes the chunk it reads next and then stops at its \<open>select\<close> with a chunk of
  call 1's audio still to come.
\<close>

theorem relay_of_other_call_is_cancelled:
  "map_option (\<lambda>w. (cancelled w, map relay_conn (relays w), map relay_pc (relays w),
                     map incoming (relays w), wire w))
     (world_run world_start cross_call_schedule) =
   Some ({0}, [1, 2], [At_deferred, At_Dial],
         [[BinaryMessage [0x0B], Text_end_of_audio], [BinaryMessage [0x14], Text_end_of_audio]],
         [(1, 0, [0x0A])])"
  by (simp add: cross_call_schedule_def world_start_def world_step_def relay_step_def
      websocketSendReceive_def)

end
